theory Spec2Isabelle
  imports Complex_Main
begin

section \<open>The query state store (useLGState.ts)\<close>

text \<open>
  The global state \<open>TLGState\<close> is a record. Its type declaration lives in
  \<open>./types\<close>; the field names and initial values are those of \<open>LGState\<close>
  (\<open>createState\<close>, lines 152-169), the element types follow the data model of the
  specification: identifiers and raw form values are strings, address families are
  numbers, \<open>null\<close> is \<open>None\<close>.
\<close>

record directive =
  directive_id :: string
  directive_name :: string

record 'o query_response =
  response_output :: 'o

record selections =
  sel_queryLocation :: "string list"
  sel_queryType :: "string option"
  sel_queryVrf :: "string option"
  sel_queryGroup :: "string option"

text \<open>
  \<open>responses\<close> is the object used as a dictionary from device identifier to that
  device's response (\<open>Record<string, TQueryResponse>\<close>). Its own properties, the
  device identifiers written into it, are a map; the members it inherits as a
  JavaScript object are described with the accessors below.
\<close>

record 'o lg_state =
  selections :: selections
  resolvedIsOpen :: bool
  isSubmitting :: bool
  availableGroups :: "string list"
  availableTypes :: "directive list"
  directive :: "directive option"
  displayTarget :: string
  queryLocation :: "string list"
  btnLoading :: bool
  queryTarget :: string
  queryGroup :: string
  queryType :: string
  availVrfs :: "string list"
  responses :: "string \<rightharpoonup> 'o query_response"
  queryVrf :: string
  families :: "nat list"

definition LGState :: "'o lg_state" where
  "LGState =
     \<lparr> selections = \<lparr> sel_queryLocation = [], sel_queryType = None,
                       sel_queryVrf = None, sel_queryGroup = None \<rparr>,
       resolvedIsOpen = False,
       isSubmitting = False,
       availableGroups = [],
       availableTypes = [],
       directive = None,
       displayTarget = [],
       queryLocation = [],
       btnLoading = False,
       queryTarget = [],
       queryGroup = [],
       queryType = [],
       availVrfs = [],
       responses = Map.empty,
       queryVrf = [],
       families = [] \<rparr>"

subsection \<open>The accessor methods of \<open>MethodsInstance\<close>\<close>

definition resolvedOpen :: "'o lg_state \<Rightarrow> 'o lg_state" where
  "resolvedOpen state = state\<lparr>resolvedIsOpen := True\<rparr>"

definition resolvedClose :: "'o lg_state \<Rightarrow> 'o lg_state" where
  "resolvedClose state = state\<lparr>resolvedIsOpen := False\<rparr>"

text \<open>
  \<open>getResponse\<close> (lines 33-39) tests \<open>device in state.responses\<close> and reads
  \<open>state.responses[device].value\<close>. Both go through the \<open>State\<close> wrapper of the
  store library (\<open>@hookstate/core\<close>, imported at line 2 and not part of the
  repository) to a JavaScript object, and neither is a plain dictionary operation.

  The operator \<open>in\<close> is answered by the wrapped object and follows its prototype
  chain: it is true for the object's own keys and for the members every object
  inherits from \<open>Object.prototype\<close>.
\<close>

definition Object_prototype :: "string list" where
  "Object_prototype =
     [ ''constructor'', ''__defineGetter__'', ''__defineSetter__'', ''hasOwnProperty'',
       ''__lookupGetter__'', ''__lookupSetter__'', ''isPrototypeOf'',
       ''propertyIsEnumerable'', ''toString'', ''valueOf'', ''__proto__'',
       ''toLocaleString'' ]"

definition js_in :: "string \<Rightarrow> (string \<rightharpoonup> 'v) \<Rightarrow> bool" where
  "js_in key obj = (key \<in> dom obj \<or> key \<in> set Object_prototype)"

text \<open>
  A property read \<open>state.responses[device]\<close> is answered by the wrapper. Its own
  members come first and shadow a stored key of the same name:
  \<^item> \<open>toJSON\<close> is refused with the library's usage error;
  \<^item> \<open>value\<close> is the wrapped object itself, \<open>ornull\<close> the wrapper itself;
  \<^item> \<open>error\<close> is \<open>undefined\<close>;
  \<^item> \<open>path\<close> and \<open>keys\<close> are arrays, \<open>promised\<close> a boolean and \<open>get\<close>, \<open>set\<close>,
    \<open>merge\<close>, \<open>nested\<close>, \<open>batch\<close>, \<open>attach\<close>, \<open>destroy\<close> functions: values
    without a property \<open>value\<close>.

  Any other name is a nested state. The wrapper looks it up in its cache of nested
  states, which is a plain object too: for a name inherited from \<open>Object.prototype\<close>
  the lookup finds the inherited member, which is no state, and the read yields
  \<open>undefined\<close>. For every other name the read yields the state of that property,
  whose value is the stored response, or \<open>undefined\<close> when nothing is stored.
\<close>

text \<open>
  The errors of this part: the two \<open>TypeError\<close>s of the language, for reading a
  property of \<open>undefined\<close> and for calling what is not a function, and the
  library's usage error.
\<close>

datatype store_error = ReadOfUndefined | NotAFunction | StateInvalidUsageError

datatype 'o state_property =
    NestedState "'o query_response option"
  | StateItself "string \<rightharpoonup> 'o query_response"
  | WrappedObject "string \<rightharpoonup> 'o query_response"
  | NoValueMember
  | UndefinedProperty

definition State_members_without_value :: "string list" where
  "State_members_without_value =
     [ ''path'', ''keys'', ''promised'', ''get'', ''set'', ''merge'', ''nested'',
       ''batch'', ''attach'', ''destroy'' ]"

definition state_property ::
    "(string \<rightharpoonup> 'o query_response) \<Rightarrow> string \<Rightarrow> store_error + 'o state_property" where
  "state_property obj key =
     (if key = ''toJSON'' then Inl StateInvalidUsageError
      else if key = ''value'' then Inr (WrappedObject obj)
      else if key = ''ornull'' then Inr (StateItself obj)
      else if key = ''error'' then Inr UndefinedProperty
      else if key \<in> set State_members_without_value then Inr NoValueMember
      else if key \<in> set Object_prototype then Inr UndefinedProperty
      else Inr (NestedState (obj key)))"

text \<open>
  What a read of \<open>.value\<close> gives, and so what \<open>getResponse\<close> can return besides
  \<open>null\<close>: a stored response, \<open>undefined\<close>, or the whole mapping. Reading a property
  of \<open>undefined\<close> raises \<open>TypeError\<close>.
\<close>

datatype 'o lookup =
    Null
  | Undefined
  | Response "'o query_response"
  | Responses "string \<rightharpoonup> 'o query_response"

definition value_of :: "'o state_property \<Rightarrow> store_error + 'o lookup" where
  "value_of p =
     (case p of
        NestedState None \<Rightarrow> Inr Undefined
      | NestedState (Some r) \<Rightarrow> Inr (Response r)
      | StateItself obj \<Rightarrow> Inr (Responses obj)
      | WrappedObject obj \<Rightarrow>
          Inr (case obj ''value'' of None \<Rightarrow> Undefined | Some r \<Rightarrow> Response r)
      | NoValueMember \<Rightarrow> Inr Undefined
      | UndefinedProperty \<Rightarrow> Inl ReadOfUndefined)"

definition getResponse :: "'o lg_state \<Rightarrow> string \<Rightarrow> store_error + 'o lookup" where
  "getResponse state device =
     (if js_in device (responses state)
      then (case state_property (responses state) device of
              Inl err \<Rightarrow> Inl err
            | Inr p \<Rightarrow> value_of p)
      else Inr Null)"

text \<open>
  \<open>getDirective\<close> (lines 41-47): the array destructuring \<open>const [directive] = ...\<close>
  takes the first element of the filtered array, \<open>undefined\<close> when it is empty.
\<close>

definition getDirective :: "'o lg_state \<Rightarrow> string \<Rightarrow> directive option" where
  "getDirective state name =
     (case filter (\<lambda>t. directive_id t = name) (availableTypes state) of
        directive' # _ \<Rightarrow> Some directive'
      | [] \<Rightarrow> None)"

text \<open>
  Modelled from the spec: the helper \<open>all\<close> of \<open>~/util\<close> is imported by the file but
  is not part of it. The invariant of the data model (``true iff ... AND ... AND ...'')
  makes it the conjunction of its arguments: it scans them in order and answers
  \<open>false\<close> at the first one that is not true.
\<close>

fun all_util :: "bool list \<Rightarrow> bool" where
  "all_util [] = True"
| "all_util (i # iter) = (if \<not> i then False else all_util iter)"

text \<open>
  \<open>formReady\<close> (lines 53-66). The test on \<open>queryVrf\<close> is commented out in the
  source and therefore absent here.
\<close>

definition formReady :: "'o lg_state \<Rightarrow> bool" where
  "formReady state =
     (isSubmitting state \<and>
      all_util
        [ queryType state \<noteq> [],
          queryGroup state \<noteq> [],
          queryTarget state \<noteq> [],
          length (queryLocation state) \<noteq> 0 ])"

text \<open>
  \<open>resetForm\<close> (lines 71-89): \<open>state.merge\<close> of a partial object overwrites the
  listed keys and keeps every other key of the state.
\<close>

definition resetForm :: "'o lg_state \<Rightarrow> 'o lg_state" where
  "resetForm state =
     state\<lparr> queryVrf := [],
            families := [],
            queryType := [],
            queryGroup := [],
            responses := Map.empty,
            queryTarget := [],
            queryLocation := [],
            displayTarget := [],
            btnLoading := False,
            isSubmitting := False,
            resolvedIsOpen := False,
            availVrfs := [],
            availableGroups := [],
            availableTypes := [],
            selections := \<lparr> sel_queryLocation = [], sel_queryType = None,
                             sel_queryVrf = None, sel_queryGroup = None \<rparr> \<rparr>"

text \<open>
  A write of one device's result into the store, \<open>responses[device] = response\<close>, as
  the submission pipeline does it: the store lets any consumer write any subtree.
\<close>

definition writeResponse :: "'o lg_state \<Rightarrow> string \<Rightarrow> 'o query_response \<Rightarrow> 'o lg_state" where
  "writeResponse state device response =
     state\<lparr>responses := (responses state)(device \<mapsto> response)\<rparr>"

section \<open>The hooks and the path view (useLGState.ts, path.tsx)\<close>

text \<open>
  \<open>useLGState\<close> (lines 174-176) returns the wrapped state itself; \<open>useLGMethods\<close>
  (lines 181-192) returns the handlers, among them \<open>getResponse\<close> bound to the state.
  Reading the property \<open>getResponse\<close> of the first gives the wrapper's nested state
  for a field the state does not have, which is an object and not a function; of the
  second, the accessor. Calling what is not a function raises \<open>TypeError\<close>.
\<close>

datatype 'o hook = RawState "'o lg_state" | Handlers "'o lg_state"

definition useLGState :: "'o lg_state \<Rightarrow> 'o hook" where
  "useLGState state = RawState state"

definition useLGMethods :: "'o lg_state \<Rightarrow> 'o hook" where
  "useLGMethods state = Handlers state"

datatype 'o hook_property =
    Accessor "string \<Rightarrow> store_error + 'o lookup"
  | AbsentField

definition property_getResponse :: "'o hook \<Rightarrow> 'o hook_property" where
  "property_getResponse h =
     (case h of
        RawState state \<Rightarrow> AbsentField
      | Handlers state \<Rightarrow> Accessor (getResponse state))"

definition call :: "'o hook_property \<Rightarrow> string \<Rightarrow> store_error + 'o lookup" where
  "call f device =
     (case f of Accessor g \<Rightarrow> g device | AbsentField \<Rightarrow> Inl NotAFunction)"

text \<open>
  What \<open>Path\<close> renders once it has a response (lines 24-40): the modal's header text
  and its body, which is either the chart with \<open>response?.output\<close> as data or the
  skeleton placeholder of fixed size. \<open>response?.output\<close> is \<open>undefined\<close> when the
  response is \<open>null\<close> or \<open>undefined\<close>, and the entry named \<open>output\<close> when the
  response is the whole mapping. Whether the modal is open is the disclosure's
  business and not part of what is rendered inside it.
\<close>

datatype 'o chart_data = NoData | Output 'o | Entry "'o query_response"

datatype 'o modal_body = Chart "'o chart_data" | Skeleton string string

record 'o path_view =
  header :: string
  body :: "'o modal_body"

definition optional_output :: "'o lookup \<Rightarrow> 'o chart_data" where
  "optional_output response =
     (case response of
        Null \<Rightarrow> NoData
      | Undefined \<Rightarrow> NoData
      | Response r \<Rightarrow> Output (response_output r)
      | Responses obj \<Rightarrow> (case obj ''output'' of None \<Rightarrow> NoData | Some r \<Rightarrow> Entry r))"

definition render :: "'o lg_state \<Rightarrow> 'o lookup \<Rightarrow> 'o path_view" where
  "render state response =
     (let output' = optional_output response
      in \<lparr> header = ''Path to '' @ displayTarget state,
           body = (if response \<noteq> Null then Chart output'
                   else Skeleton ''500px'' ''300px'') \<rparr>)"

text \<open>
  The component, given the hook it takes \<open>getResponse\<close> from: the call at line 23
  comes before anything is rendered, so an error raised there is the component's
  outcome. \<open>Path\<close> (lines 18-41) takes it from \<open>useLGState\<close> (line 20).
\<close>

definition Path_with :: "'o hook \<Rightarrow> 'o lg_state \<Rightarrow> string \<Rightarrow> store_error + 'o path_view" where
  "Path_with h state device =
     (case call (property_getResponse h) device of
        Inl err \<Rightarrow> Inl err
      | Inr response \<Rightarrow> Inr (render state response))"

definition Path :: "'o lg_state \<Rightarrow> string \<Rightarrow> store_error + 'o path_view" where
  "Path state device = Path_with (useLGState state) state device"

section \<open>JavaScript values and JSON (for \<open>stateExporter\<close>)\<close>

text \<open>
  \<open>stateExporter\<close> takes any value and calls \<open>JSON.stringify\<close> and \<open>JSON.parse\<close>, so
  its model needs JavaScript values with object identity. A value is a primitive or a
  reference into a heap of objects; the heap is a list, an address is an index into it,
  and allocation appends. The universe is: \<open>undefined\<close>, \<open>null\<close>, booleans,
  numbers, strings, functions (opaque; a symbol behaves the same way for JSON), arrays
  and plain objects with their own enumerable properties in property order. Getters,
  \<open>toJSON\<close> methods and BigInt are outside the model.

  A number is finite, or one of the four values JSON text cannot write: negative zero,
  NaN and the two infinities. Every finite number survives printing and reading
  unchanged, so finite numbers are carried by the rationals.
\<close>

datatype jsnum = Fin rat | NegZero | NaN | PosInfinity | NegInfinity

datatype jsval =
    VUndefined
  | VNull
  | VBool bool
  | VNum jsnum
  | VStr string
  | VFun
  | VRef nat

datatype jsobj = OArr "jsval list" | OObj "(string \<times> jsval) list"

type_synonym heap = "jsobj list"

datatype js_error = TypeError | SyntaxError

text \<open>
  The tree a value unfolds to when its references are followed: what the value is,
  without the addresses. Two values are equal in value when they unfold to the same
  tree.
\<close>

datatype vtree =
    TUndefined
  | TNull
  | TBool bool
  | TNum jsnum
  | TStr string
  | TFun
  | TArr "vtree list"
  | TObj "(string \<times> vtree) list"

text \<open>JSON text, by its abstract syntax.\<close>

datatype json =
    JNull
  | JBool bool
  | JNum rat
  | JStr string
  | JArr "json list"
  | JObj "(string \<times> json) list"

text \<open>
  The traversal \<open>JSON.stringify\<close> makes. \<open>stack\<close> holds the objects being
  serialized around the current value; meeting one of them again is the cyclic
  structure that raises \<open>TypeError\<close>. An address outside the heap does not occur in a
  running program; the traversal fails there too, so that every successful traversal
  stays inside the heap.
\<close>

function walk :: "heap \<Rightarrow> nat list \<Rightarrow> jsval \<Rightarrow> js_error + vtree"
  and walk_elems :: "heap \<Rightarrow> nat list \<Rightarrow> jsval list \<Rightarrow> js_error + vtree list"
  and walk_props ::
    "heap \<Rightarrow> nat list \<Rightarrow> (string \<times> jsval) list \<Rightarrow> js_error + (string \<times> vtree) list"
where
  "walk h stack VUndefined = Inr TUndefined"
| "walk h stack VNull = Inr TNull"
| "walk h stack (VBool b) = Inr (TBool b)"
| "walk h stack (VNum n) = Inr (TNum n)"
| "walk h stack (VStr s) = Inr (TStr s)"
| "walk h stack VFun = Inr TFun"
| "walk h stack (VRef a) =
     (if a \<in> set stack \<or> length h \<le> a then Inl TypeError
      else case h ! a of
        OArr vs \<Rightarrow>
          (case walk_elems h (a # stack) vs of
             Inl e \<Rightarrow> Inl e | Inr ts \<Rightarrow> Inr (TArr ts))
      | OObj ps \<Rightarrow>
          (case walk_props h (a # stack) ps of
             Inl e \<Rightarrow> Inl e | Inr ts \<Rightarrow> Inr (TObj ts)))"
| "walk_elems h stack [] = Inr []"
| "walk_elems h stack (v # vs) =
     (case walk h stack v of
        Inl e \<Rightarrow> Inl e
      | Inr t \<Rightarrow>
          (case walk_elems h stack vs of
             Inl e \<Rightarrow> Inl e | Inr ts \<Rightarrow> Inr (t # ts)))"
| "walk_props h stack [] = Inr []"
| "walk_props h stack ((k, v) # ps) =
     (case walk h stack v of
        Inl e \<Rightarrow> Inl e
      | Inr t \<Rightarrow>
          (case walk_props h stack ps of
             Inl e \<Rightarrow> Inl e | Inr ts \<Rightarrow> Inr ((k, t) # ts)))"
  by pat_completeness auto

text \<open>
  Every descent into an object puts one more address of the heap on the stack, so the
  number of addresses not yet on it decreases; inside one object the remaining list
  gets shorter.
\<close>

definition unvisited :: "heap \<Rightarrow> nat list \<Rightarrow> nat" where
  "unvisited h stack = card ({..<length h} - set stack)"

lemma unvisited_push:
  "a \<notin> set stack \<Longrightarrow> a < length h \<Longrightarrow> unvisited h (a # stack) < unvisited h stack"
  unfolding unvisited_def by (intro psubset_card_mono) auto

termination walk
  by (relation "inv_image (less_than <*lex*> less_than)
        (\<lambda>x. case x of
           Inl (h, stack, v) \<Rightarrow> (unvisited h stack, 0)
         | Inr (Inl (h, stack, vs)) \<Rightarrow> (unvisited h stack, Suc (length vs))
         | Inr (Inr (h, stack, ps)) \<Rightarrow> (unvisited h stack, Suc (length ps)))")
     (auto simp: unvisited_push)

text \<open>
  The text each visited value contributes. \<open>None\<close> is the result \<open>undefined\<close>:
  \<open>undefined\<close> and functions have no JSON text; in an array they are written
  \<open>null\<close>, in an object their property is left out. Negative zero is written \<open>0\<close>,
  NaN and the infinities \<open>null\<close>.
\<close>

fun encode :: "vtree \<Rightarrow> json option"
  and encode_elems :: "vtree list \<Rightarrow> json list"
  and encode_props :: "(string \<times> vtree) list \<Rightarrow> (string \<times> json) list"
where
  "encode TUndefined = None"
| "encode TNull = Some JNull"
| "encode (TBool b) = Some (JBool b)"
| "encode (TNum n) =
     Some (case n of Fin q \<Rightarrow> JNum q | NegZero \<Rightarrow> JNum 0 | _ \<Rightarrow> JNull)"
| "encode (TStr s) = Some (JStr s)"
| "encode TFun = None"
| "encode (TArr ts) = Some (JArr (encode_elems ts))"
| "encode (TObj ps) = Some (JObj (encode_props ps))"
| "encode_elems [] = []"
| "encode_elems (t # ts) =
     (case encode t of None \<Rightarrow> JNull | Some j \<Rightarrow> j) # encode_elems ts"
| "encode_props [] = []"
| "encode_props ((k, t) # ps) =
     (case encode t of
        None \<Rightarrow> encode_props ps
      | Some j \<Rightarrow> (k, j) # encode_props ps)"

text \<open>
  \<open>JSON.stringify(v)\<close>: the text, \<open>undefined\<close> (\<open>None\<close>), or a raised error.
\<close>

definition JSON_stringify :: "heap \<Rightarrow> jsval \<Rightarrow> js_error + json option" where
  "JSON_stringify h v =
     (case walk h [] v of Inl e \<Rightarrow> Inl e | Inr t \<Rightarrow> Inr (encode t))"

text \<open>
  \<open>JSON.parse\<close> builds the value of a text from new objects only: children first,
  then the array or object holding them.
\<close>

fun revive :: "heap \<Rightarrow> json \<Rightarrow> heap \<times> jsval"
  and revive_elems :: "heap \<Rightarrow> json list \<Rightarrow> heap \<times> jsval list"
  and revive_props :: "heap \<Rightarrow> (string \<times> json) list \<Rightarrow> heap \<times> (string \<times> jsval) list"
where
  "revive h JNull = (h, VNull)"
| "revive h (JBool b) = (h, VBool b)"
| "revive h (JNum q) = (h, VNum (Fin q))"
| "revive h (JStr s) = (h, VStr s)"
| "revive h (JArr js) =
     (case revive_elems h js of (h', vs) \<Rightarrow> (h' @ [OArr vs], VRef (length h')))"
| "revive h (JObj ms) =
     (case revive_props h ms of (h', ps) \<Rightarrow> (h' @ [OObj ps], VRef (length h')))"
| "revive_elems h [] = (h, [])"
| "revive_elems h (j # js) =
     (case revive h j of (h1, v) \<Rightarrow>
        (case revive_elems h1 js of (h2, vs) \<Rightarrow> (h2, v # vs)))"
| "revive_props h [] = (h, [])"
| "revive_props h ((k, j) # ms) =
     (case revive h j of (h1, v) \<Rightarrow>
        (case revive_props h1 ms of (h2, ps) \<Rightarrow> (h2, (k, v) # ps)))"

text \<open>
  \<open>JSON.parse(text)\<close>. Its argument is converted to a string first; \<open>undefined\<close>
  becomes the string \<open>undefined\<close>, which is not JSON text and raises \<open>SyntaxError\<close>.
  A text that \<open>JSON.stringify\<close> wrote always parses.
\<close>

definition JSON_parse :: "heap \<Rightarrow> json option \<Rightarrow> js_error + heap \<times> jsval" where
  "JSON_parse h text =
     (case text of None \<Rightarrow> Inl SyntaxError | Some j \<Rightarrow> Inr (revive h j))"

text \<open>
  What \<open>stateExporter\<close> can change besides returning: the heap (by allocating the
  copy) and the console. \<open>console.error\<close> receives the message of the caught error;
  the console keeps which error it was.
\<close>

record js_env =
  objects :: heap
  console :: "js_error list"

definition console_error :: "js_env \<Rightarrow> js_error \<Rightarrow> js_env" where
  "console_error env error = env\<lparr>console := console env @ [error]\<rparr>"

text \<open>
  \<open>stateExporter\<close> (lines 91-108). \<open>result\<close> starts as \<open>null\<close>; the \<open>try\<close> block
  either assigns the parsed copy to it or raises into the \<open>catch\<close> block, which
  logs and leaves \<open>result\<close> as it was. Both errors are instances of \<open>Error\<close>, so
  the logged text is \<open>err.message\<close>.
\<close>

definition stateExporter :: "js_env \<Rightarrow> jsval \<Rightarrow> js_env \<times> jsval" where
  "stateExporter env obj =
     (let result = VNull in
      if obj = VNull then (env, result)
      else
        case (case JSON_stringify (objects env) obj of
                Inl err \<Rightarrow> Inl err
              | Inr text \<Rightarrow> JSON_parse (objects env) text) of
          Inr (h', parsed) \<Rightarrow> (env\<lparr>objects := h'\<rparr>, parsed)
        | Inl err \<Rightarrow> (console_error env err, result))"

subsection \<open>Notions used to state the properties of \<open>stateExporter\<close>\<close>

text \<open>The value a JSON text denotes.\<close>

fun tree_of :: "json \<Rightarrow> vtree"
  and tree_of_elems :: "json list \<Rightarrow> vtree list"
  and tree_of_props :: "(string \<times> json) list \<Rightarrow> (string \<times> vtree) list"
where
  "tree_of JNull = TNull"
| "tree_of (JBool b) = TBool b"
| "tree_of (JNum q) = TNum (Fin q)"
| "tree_of (JStr s) = TStr s"
| "tree_of (JArr js) = TArr (tree_of_elems js)"
| "tree_of (JObj ms) = TObj (tree_of_props ms)"
| "tree_of_elems [] = []"
| "tree_of_elems (j # js) = tree_of j # tree_of_elems js"
| "tree_of_props [] = []"
| "tree_of_props ((k, j) # ms) = (k, tree_of j) # tree_of_props ms"

text \<open>
  Plain data: a value JSON text can write without loss, that is \<open>null\<close>, booleans,
  finite numbers, strings, and arrays and objects of plain data.
\<close>

fun plain :: "vtree \<Rightarrow> bool"
  and plain_elems :: "vtree list \<Rightarrow> bool"
  and plain_props :: "(string \<times> vtree) list \<Rightarrow> bool"
where
  "plain TUndefined = False"
| "plain TNull = True"
| "plain (TBool b) = True"
| "plain (TNum n) = (case n of Fin q \<Rightarrow> True | _ \<Rightarrow> False)"
| "plain (TStr s) = True"
| "plain TFun = False"
| "plain (TArr ts) = plain_elems ts"
| "plain (TObj ps) = plain_props ps"
| "plain_elems [] = True"
| "plain_elems (t # ts) = (plain t \<and> plain_elems ts)"
| "plain_props [] = True"
| "plain_props ((k, t) # ps) = (plain t \<and> plain_props ps)"

text \<open>
  \<open>points_above n v\<close>: if \<open>v\<close> is a reference, its address is \<open>n\<close> or later;
  \<open>object_above n obj\<close>: so is every reference stored in \<open>obj\<close>. With \<open>n\<close> the size
  of the heap before a call, these say that a reference is to an object allocated by
  the call.
\<close>

fun points_above :: "nat \<Rightarrow> jsval \<Rightarrow> bool" where
  "points_above n (VRef a) = (n \<le> a)"
| "points_above n v = True"

fun object_above :: "nat \<Rightarrow> jsobj \<Rightarrow> bool" where
  "object_above n (OArr vs) = list_all (points_above n) vs"
| "object_above n (OObj ps) = list_all (\<lambda>p. points_above n (snd p)) ps"


subsection \<open>Concrete states and values used by the examples below\<close>

definition readyState :: "string lg_state" where
  "readyState = LGState\<lparr> queryType := ''bgp_route'', queryGroup := ''edge'',
     queryTarget := ''1.1.1.1'', queryLocation := [''loc1''], isSubmitting := True \<rparr>"

definition typesState :: "string lg_state" where
  "typesState = LGState\<lparr> availableTypes :=
     [ \<lparr>directive_id = ''ping'', directive_name = ''Ping''\<rparr>,
       \<lparr>directive_id = ''bgp_route'', directive_name = ''first''\<rparr>,
       \<lparr>directive_id = ''bgp_route'', directive_name = ''second''\<rparr> ] \<rparr>"

text \<open>
  A heap with a response-like object at address 0 holding an array (address 1), and
  at address 2 an object whose property \<open>self\<close> is the object itself.
\<close>

definition exportEnv :: js_env where
  "exportEnv =
     \<lparr> objects =
         [ OObj [(''output'', VStr ''...''), (''hops'', VRef 1)],
           OArr [VNum (Fin 1), VNull, VBool True],
           OObj [(''self'', VRef 2)] ],
       console = [] \<rparr>"


section \<open>Properties of the state store\<close>

text \<open>
  C1. For every state, \<open>formReady()\<close> is true if and only if \<open>isSubmitting\<close> is
  true and \<open>queryType\<close>, \<open>queryGroup\<close> and \<open>queryTarget\<close> are non-empty strings and
  \<open>queryLocation\<close> is a non-empty list; in every other combination it is false.
\<close>

theorem formReady_iff:
  "formReady s \<longleftrightarrow>
     isSubmitting s \<and> queryType s \<noteq> [] \<and> queryGroup s \<noteq> [] \<and>
     queryTarget s \<noteq> [] \<and> queryLocation s \<noteq> []"
  by (simp add: formReady_def)

theorem formReady_iff_witness:
  "formReady readyState \<and> \<not> formReady (readyState\<lparr>queryTarget := []\<rparr>)
   \<and> \<not> formReady (readyState\<lparr>isSubmitting := False\<rparr>)"
  using formReady_iff [of readyState] formReady_iff [of "readyState\<lparr>queryTarget := []\<rparr>"]
    formReady_iff [of "readyState\<lparr>isSubmitting := False\<rparr>"]
  by (simp add: readyState_def LGState_def)

text \<open>
  For a device identifier that is neither a member of \<open>Object.prototype\<close> nor a
  member of the wrapper, \<open>getResponse\<close> is the dictionary lookup: \<open>null\<close> without
  the key, the stored response with it.
\<close>

lemma getResponse_ordinary:
  assumes "d \<notin> set Object_prototype"
    and "d \<notin> set State_members_without_value"
    and "d \<notin> {''toJSON'', ''value'', ''ornull'', ''error''}"
  shows "getResponse s d =
    (case responses s d of None \<Rightarrow> Inr Null | Some r \<Rightarrow> Inr (Response r))"
  using assms
  by (auto simp: getResponse_def js_in_def state_property_def value_of_def
      split: option.splits)

text \<open>
  C2. The claim is that for every state and every device identifier \<open>d\<close>,
  \<open>getResponse(d)\<close> returns \<open>null\<close> when \<open>d\<close> is not a key of \<open>responses\<close> and
  the stored value when it is, and never throws. The code does not do this for every
  \<open>d\<close>: in the initial state, where \<open>responses\<close> has no key, \<open>getResponse\<close> raises
  \<open>TypeError\<close> at \<open>toString\<close>, a name the operator \<open>in\<close> finds by inheritance;
  and with a response stored under \<open>keys\<close> or \<open>ornull\<close> it returns \<open>undefined\<close>
  and the whole mapping, the wrapper's members of these names.
\<close>

theorem getResponse_inherited:
  "getResponse LGState ''toString'' = Inl ReadOfUndefined \<and>
   getResponse (writeResponse LGState ''keys'' r) ''keys'' = Inr Undefined \<and>
   getResponse (writeResponse LGState ''ornull'' r) ''ornull''
     = Inr (Responses (Map.empty(''ornull'' \<mapsto> r)))"
  by (simp add: getResponse_def js_in_def state_property_def value_of_def
      Object_prototype_def State_members_without_value_def LGState_def writeResponse_def)

text \<open>
  The first element of a filtered list is what \<open>List.find\<close> returns.
\<close>

lemma first_of_filter:
  "(case filter P xs of [] \<Rightarrow> None | x # _ \<Rightarrow> Some x) = List.find P xs"
  by (induction xs) simp_all

lemma getDirective_find:
  "getDirective s name = List.find (\<lambda>t. directive_id t = name) (availableTypes s)"
  unfolding getDirective_def by (rule first_of_filter)

text \<open>
  C4. For every sequence \<open>availableTypes\<close> and every name, \<open>getDirective(name)\<close>
  returns \<open>null\<close> when no entry's identifier equals the name, and otherwise the
  first matching entry in the order of the sequence: the entry at the index \<open>i\<close>
  that matches while no earlier index does.
\<close>

theorem getDirective_first:
  "((\<forall>i<length (availableTypes s). directive_id (availableTypes s ! i) \<noteq> name)
      \<longrightarrow> getDirective s name = None) \<and>
   (\<forall>i<length (availableTypes s).
      directive_id (availableTypes s ! i) = name \<and>
      (\<forall>j<i. directive_id (availableTypes s ! j) \<noteq> name)
      \<longrightarrow> getDirective s name = Some (availableTypes s ! i))"
proof (intro conjI allI impI)
  assume "\<forall>i<length (availableTypes s). directive_id (availableTypes s ! i) \<noteq> name"
  then have "\<not> (\<exists>t. t \<in> set (availableTypes s) \<and> directive_id t = name)"
    by (auto simp: in_set_conv_nth)
  then show "getDirective s name = None"
    by (simp add: getDirective_find find_None_iff)
next
  fix i
  assume "i < length (availableTypes s)"
    and "directive_id (availableTypes s ! i) = name \<and>
         (\<forall>j<i. directive_id (availableTypes s ! j) \<noteq> name)"
  then show "getDirective s name = Some (availableTypes s ! i)"
    by (auto simp: getDirective_find find_Some_iff)
qed

theorem getDirective_first_witness:
  "getDirective typesState ''traceroute'' = None \<and>
   getDirective typesState ''bgp_route''
     = Some \<lparr>directive_id = ''bgp_route'', directive_name = ''first''\<rparr>"
proof -
  have none: "\<forall>i<length (availableTypes typesState).
      directive_id (availableTypes typesState ! i) \<noteq> ''traceroute''"
    by (simp add: typesState_def LGState_def less_Suc_eq all_conj_distrib)
  have one: "(1::nat) < length (availableTypes typesState)"
    by (simp add: typesState_def LGState_def)
  have first: "directive_id (availableTypes typesState ! 1) = ''bgp_route'' \<and>
      (\<forall>j<1. directive_id (availableTypes typesState ! j) \<noteq> ''bgp_route'')"
    by (simp add: typesState_def LGState_def)
  from getDirective_first [of typesState "''traceroute''"] none
  have "getDirective typesState ''traceroute'' = None" by blast
  moreover from getDirective_first [of typesState "''bgp_route''"] one first
  have "getDirective typesState ''bgp_route'' = Some (availableTypes typesState ! 1)"
    by blast
  ultimately show ?thesis by (simp add: typesState_def LGState_def)
qed

text \<open>
  C5. \<open>resetForm()\<close> leaves \<open>directive\<close> unchanged while it overwrites the listed
  fields with their defaults: the state after it is the initial state but for
  \<open>directive\<close>, which has the value it had before.
\<close>

theorem resetForm_directive:
  "directive (resetForm s) = directive s \<and>
   resetForm s = LGState\<lparr>directive := directive s\<rparr>"
  by (simp add: resetForm_def LGState_def)

theorem resetForm_directive_witness:
  "directive (resetForm (readyState\<lparr>directive := Some (hd (availableTypes typesState))\<rparr>))
     = Some \<lparr>directive_id = ''ping'', directive_name = ''Ping''\<rparr> \<and>
   queryTarget (resetForm (readyState\<lparr>directive := Some (hd (availableTypes typesState))\<rparr>))
     = []"
  using resetForm_directive
    [of "readyState\<lparr>directive := Some (hd (availableTypes typesState))\<rparr>"]
  by (simp add: readyState_def typesState_def LGState_def)

text \<open>
  C6. For every prior state, \<open>resetForm()\<close> followed by \<open>formReady()\<close> gives false.
\<close>

theorem resetForm_not_ready: "formReady (resetForm s) = False"
  by (simp add: resetForm_def formReady_def)

theorem resetForm_not_ready_witness:
  "formReady readyState \<and> \<not> formReady (resetForm readyState)"
  using resetForm_not_ready [of readyState]
  by (simp add: readyState_def LGState_def formReady_def)

text \<open>
  C7. The claim is that \<open>getResponse(d)\<close> is \<open>null\<close> for every device \<open>d\<close> in the
  initial state and after \<open>resetForm()\<close>, and the written response after a write
  under \<open>d\<close>. \<open>resetForm()\<close> does empty the mapping, and the scenario holds for
  \<open>router1\<close>; it fails for other identifiers: in the initial state and after
  \<open>resetForm()\<close>, \<open>getResponse\<close> raises \<open>TypeError\<close> at \<open>toString\<close>, and a response
  written under \<open>keys\<close> is not read back.
\<close>

theorem responses_scenario_inherited:
  "responses (resetForm s) = Map.empty \<and>
   getResponse LGState ''router1'' = Inr Null \<and>
   getResponse (writeResponse LGState ''router1'' r) ''router1'' = Inr (Response r) \<and>
   getResponse (resetForm (writeResponse LGState ''router1'' r)) ''router1'' = Inr Null \<and>
   getResponse LGState ''toString'' = Inl ReadOfUndefined \<and>
   getResponse (resetForm s) ''toString'' = Inl ReadOfUndefined \<and>
   getResponse (writeResponse s ''keys'' r) ''keys'' = Inr Undefined"
  by (simp add: getResponse_def js_in_def state_property_def value_of_def
      Object_prototype_def State_members_without_value_def LGState_def writeResponse_def
      resetForm_def)

text \<open>
  With \<open>getResponse\<close> taken from \<open>useLGMethods\<close>, the component renders the chart
  exactly when the accessor returns something other than \<open>null\<close>, and the
  placeholder exactly when it returns \<open>null\<close>.
\<close>

lemma Path_with_useLGMethods:
  "Path_with (useLGMethods s) s d =
     (case getResponse s d of
        Inl err \<Rightarrow> Inl err
      | Inr response \<Rightarrow>
          Inr \<lparr> header = ''Path to '' @ displayTarget s,
                body = (if response = Null then Skeleton ''500px'' ''300px''
                        else Chart (optional_output response)) \<rparr>)"
  by (simp add: Path_with_def useLGMethods_def property_getResponse_def call_def
      render_def split: sum.splits)

text \<open>
  C8. The claim is that the body of the path view is the chart exactly when
  \<open>getResponse(device)\<close> returns a response and the loading placeholder exactly when
  it returns \<open>null\<close>, for every device. The component as written renders neither:
  it takes \<open>getResponse\<close> from \<open>useLGState()\<close>, whose result has no such method,
  and the call raises \<open>TypeError\<close> for every state and every device.
\<close>

theorem Path_throws: "Path s d = Inl NotAFunction"
  by (simp add: Path_def Path_with_def useLGState_def property_getResponse_def call_def)

text \<open>
  C9. \<open>formReady()\<close> does not depend on \<open>queryVrf\<close>: two states that differ only in
  the value of \<open>queryVrf\<close>, that is, that become equal once \<open>queryVrf\<close> is set to the
  same value in both, give the same result.
\<close>

theorem formReady_queryVrf:
  assumes "s\<lparr>queryVrf := v\<rparr> = s'\<lparr>queryVrf := v\<rparr>"
  shows "formReady s = formReady s'"
proof -
  have "formReady s = formReady (s\<lparr>queryVrf := v\<rparr>)"
    by (simp add: formReady_def)
  also have "\<dots> = formReady (s'\<lparr>queryVrf := v\<rparr>)"
    using assms by simp
  also have "\<dots> = formReady s'"
    by (simp add: formReady_def)
  finally show ?thesis .
qed

theorem formReady_queryVrf_witness:
  "readyState\<lparr>queryVrf := ''default''\<rparr> \<noteq> readyState\<lparr>queryVrf := ''customer''\<rparr> \<and>
   formReady (readyState\<lparr>queryVrf := ''default''\<rparr>)
     = formReady (readyState\<lparr>queryVrf := ''customer''\<rparr>)"
proof -
  have "(readyState\<lparr>queryVrf := ''default''\<rparr>)\<lparr>queryVrf := []\<rparr>
      = (readyState\<lparr>queryVrf := ''customer''\<rparr>)\<lparr>queryVrf := []\<rparr>"
    by simp
  from formReady_queryVrf [OF this]
  have "formReady (readyState\<lparr>queryVrf := ''default''\<rparr>)
      = formReady (readyState\<lparr>queryVrf := ''customer''\<rparr>)" .
  moreover have
    "readyState\<lparr>queryVrf := ''default''\<rparr> \<noteq> readyState\<lparr>queryVrf := ''customer''\<rparr>"
  proof
    assume "readyState\<lparr>queryVrf := ''default''\<rparr> = readyState\<lparr>queryVrf := ''customer''\<rparr>"
    then have "queryVrf (readyState\<lparr>queryVrf := ''default''\<rparr>)
        = queryVrf (readyState\<lparr>queryVrf := ''customer''\<rparr>)"
      by (rule arg_cong)
    then show False by simp
  qed
  ultimately show ?thesis by simp
qed


section \<open>Properties of \<open>stateExporter\<close>\<close>

text \<open>Plain data is written without loss: its text denotes it.\<close>

lemma encode_plain:
  "plain t \<Longrightarrow> map_option tree_of (encode t) = Some t"
  "plain_elems ts \<Longrightarrow> tree_of_elems (encode_elems ts) = ts"
  "plain_props ps \<Longrightarrow> tree_of_props (encode_props ps) = ps"
  by (induction t and ts and ps rule: plain_plain_elems_plain_props.induct)
     (auto split: jsnum.splits option.splits)


text \<open>\<open>JSON.parse\<close> only appends to the heap.\<close>

lemma revive_extends:
  "revive h j = (h', r) \<Longrightarrow> \<exists>ext. h' = h @ ext"
  "revive_elems h js = (h', vs) \<Longrightarrow> \<exists>ext. h' = h @ ext"
  "revive_props h ms = (h', ps) \<Longrightarrow> \<exists>ext. h' = h @ ext"
proof (induction h j and h js and h ms arbitrary: h' r and h' vs and h' ps
    rule: revive_revive_elems_revive_props.induct)
  case (5 h js)
  then show ?case by (fastforce split: prod.splits)
next
  case (6 h ms)
  then show ?case by (fastforce split: prod.splits)
next
  case (8 h j js)
  then show ?case by (fastforce split: prod.splits)
next
  case (10 h k j ms)
  then show ?case by (fastforce split: prod.splits)
qed auto

lemma revive_length:
  "revive h j = (h', r) \<Longrightarrow> length h \<le> length h'"
  "revive_elems h js = (h', vs) \<Longrightarrow> length h \<le> length h'"
  "revive_props h ms = (h', ps) \<Longrightarrow> length h \<le> length h'"
  using revive_extends by fastforce+


text \<open>
  Unfolding a parsed value gives back the value of the text. The statement is
  generalised for the induction: the heap may have grown further (\<open>rest\<close>), and the
  stack may hold any addresses outside the part of the heap the parse allocated.
\<close>

lemma walk_fresh_object:
  assumes "\<forall>s\<in>set stack. s < n \<or> Suc (length h1) \<le> s" and "n \<le> length h1"
  shows "walk (h1 @ obj # rest) stack (VRef (length h1)) =
    (case obj of
       OArr vs \<Rightarrow>
         (case walk_elems (h1 @ obj # rest) (length h1 # stack) vs of
            Inl e \<Rightarrow> Inl e | Inr ts \<Rightarrow> Inr (TArr ts))
     | OObj ps \<Rightarrow>
         (case walk_props (h1 @ obj # rest) (length h1 # stack) ps of
            Inl e \<Rightarrow> Inl e | Inr ts \<Rightarrow> Inr (TObj ts)))"
proof -
  have "length h1 \<notin> set stack"
    using assms by fastforce
  then show ?thesis by simp
qed

lemma revive_walk:
  "revive h j = (h', r) \<Longrightarrow> \<forall>s\<in>set stack. s < length h \<or> length h' \<le> s \<Longrightarrow>
     walk (h' @ rest) stack r = Inr (tree_of j)"
  "revive_elems h js = (h', vs) \<Longrightarrow> \<forall>s\<in>set stack. s < length h \<or> length h' \<le> s \<Longrightarrow>
     walk_elems (h' @ rest) stack vs = Inr (tree_of_elems js)"
  "revive_props h ms = (h', ps) \<Longrightarrow> \<forall>s\<in>set stack. s < length h \<or> length h' \<le> s \<Longrightarrow>
     walk_props (h' @ rest) stack ps = Inr (tree_of_props ms)"
proof (induction h j and h js and h ms
    arbitrary: h' r stack rest and h' vs stack rest and h' ps stack rest
    rule: revive_revive_elems_revive_props.induct)
  case (5 h js)
  obtain h1 vs where el: "revive_elems h js = (h1, vs)"
    by (cases "revive_elems h js")
  with "5.prems" have h': "h' = h1 @ [OArr vs]" and r: "r = VRef (length h1)"
    by simp_all
  have le: "length h \<le> length h1"
    using el by (rule revive_length)
  have st: "\<forall>s\<in>set stack. s < length h \<or> Suc (length h1) \<le> s"
    using "5.prems"(2) h' by simp
  then have "\<forall>s\<in>set (length h1 # stack). s < length h \<or> length h1 \<le> s"
    by auto
  from "5.IH" [OF el this, of "OArr vs # rest"]
  have "walk_elems (h1 @ OArr vs # rest) (length h1 # stack) vs = Inr (tree_of_elems js)" .
  then show ?case
    using walk_fresh_object [OF st le, of "OArr vs" rest] by (simp add: h' r)
next
  case (6 h ms)
  obtain h1 ps where el: "revive_props h ms = (h1, ps)"
    by (cases "revive_props h ms")
  with "6.prems" have h': "h' = h1 @ [OObj ps]" and r: "r = VRef (length h1)"
    by simp_all
  have le: "length h \<le> length h1"
    using el by (rule revive_length)
  have st: "\<forall>s\<in>set stack. s < length h \<or> Suc (length h1) \<le> s"
    using "6.prems"(2) h' by simp
  then have "\<forall>s\<in>set (length h1 # stack). s < length h \<or> length h1 \<le> s"
    by auto
  from "6.IH" [OF el this, of "OObj ps # rest"]
  have "walk_props (h1 @ OObj ps # rest) (length h1 # stack) ps = Inr (tree_of_props ms)" .
  then show ?case
    using walk_fresh_object [OF st le, of "OObj ps" rest] by (simp add: h' r)
next
  case (8 h j js)
  obtain h1 v where hd: "revive h j = (h1, v)"
    by (cases "revive h j")
  obtain h2 vs' where tl: "revive_elems h1 js = (h2, vs')"
    by (cases "revive_elems h1 js")
  from "8.prems"(1) hd tl have h': "h' = h2" and vs: "vs = v # vs'"
    by simp_all
  obtain ext where ext: "h2 = h1 @ ext"
    using revive_extends(2) [OF tl] by blast
  have le1: "length h \<le> length h1"
    using hd by (rule revive_length)
  have "\<forall>s\<in>set stack. s < length h \<or> length h1 \<le> s"
    using "8.prems"(2) h' ext by fastforce
  from "8.IH"(1) [OF hd this, of "ext @ rest"]
  have w1: "walk (h2 @ rest) stack v = Inr (tree_of j)"
    by (simp add: ext)
  have "\<forall>s\<in>set stack. s < length h1 \<or> length h2 \<le> s"
    using "8.prems"(2) h' le1 by fastforce
  from "8.IH"(2) [OF hd [symmetric] tl this, of rest]
  have w2: "walk_elems (h2 @ rest) stack vs' = Inr (tree_of_elems js)" .
  show ?case
    by (simp add: h' vs w1 w2)
next
  case (10 h k j ms)
  obtain h1 v where hd: "revive h j = (h1, v)"
    by (cases "revive h j")
  obtain h2 ps' where tl: "revive_props h1 ms = (h2, ps')"
    by (cases "revive_props h1 ms")
  from "10.prems"(1) hd tl have h': "h' = h2" and ps: "ps = (k, v) # ps'"
    by simp_all
  obtain ext where ext: "h2 = h1 @ ext"
    using revive_extends(3) [OF tl] by blast
  have le1: "length h \<le> length h1"
    using hd by (rule revive_length)
  have "\<forall>s\<in>set stack. s < length h \<or> length h1 \<le> s"
    using "10.prems"(2) h' ext by fastforce
  from "10.IH"(1) [OF hd this, of "ext @ rest"]
  have w1: "walk (h2 @ rest) stack v = Inr (tree_of j)"
    by (simp add: ext)
  have "\<forall>s\<in>set stack. s < length h1 \<or> length h2 \<le> s"
    using "10.prems"(2) h' le1 by fastforce
  from "10.IH"(2) [OF hd [symmetric] tl this, of rest]
  have w2: "walk_props (h2 @ rest) stack ps' = Inr (tree_of_props ms)" .
  show ?case
    by (simp add: h' ps w1 w2)
qed auto


text \<open>
  A parsed value refers to newly allocated objects only, and so does every object
  the parse allocated.
\<close>

lemma revive_fresh:
  "revive h j = (h', r) \<Longrightarrow> n \<le> length h \<Longrightarrow>
     points_above n r \<and> list_all (object_above n) (drop (length h) h')"
  "revive_elems h js = (h', vs) \<Longrightarrow> n \<le> length h \<Longrightarrow>
     list_all (points_above n) vs \<and> list_all (object_above n) (drop (length h) h')"
  "revive_props h ms = (h', ps) \<Longrightarrow> n \<le> length h \<Longrightarrow>
     list_all (\<lambda>p. points_above n (snd p)) ps \<and>
     list_all (object_above n) (drop (length h) h')"
proof (induction h j and h js and h ms
    arbitrary: h' r n and h' vs n and h' ps n
    rule: revive_revive_elems_revive_props.induct)
  case (5 h js)
  obtain h1 vs where el: "revive_elems h js = (h1, vs)"
    by (cases "revive_elems h js")
  with "5.prems" have h': "h' = h1 @ [OArr vs]" and r: "r = VRef (length h1)"
    by simp_all
  have le: "length h \<le> length h1"
    using el by (rule revive_length)
  from "5.IH" [OF el "5.prems"(2)] le "5.prems"(2) show ?case
    by (simp add: h' r)
next
  case (6 h ms)
  obtain h1 ps where el: "revive_props h ms = (h1, ps)"
    by (cases "revive_props h ms")
  with "6.prems" have h': "h' = h1 @ [OObj ps]" and r: "r = VRef (length h1)"
    by simp_all
  have le: "length h \<le> length h1"
    using el by (rule revive_length)
  from "6.IH" [OF el "6.prems"(2)] le "6.prems"(2) show ?case
    by (simp add: h' r)
next
  case (8 h j js)
  obtain h1 v where hd: "revive h j = (h1, v)"
    by (cases "revive h j")
  obtain h2 vs' where tl: "revive_elems h1 js = (h2, vs')"
    by (cases "revive_elems h1 js")
  from "8.prems"(1) hd tl have h': "h' = h2" and vs: "vs = v # vs'"
    by simp_all
  obtain e1 where e1: "h1 = h @ e1"
    using revive_extends(1) [OF hd] by blast
  obtain e2 where e2: "h2 = h1 @ e2"
    using revive_extends(2) [OF tl] by blast
  have "n \<le> length h1"
    using "8.prems"(2) e1 by simp
  from "8.IH"(1) [OF hd "8.prems"(2)] "8.IH"(2) [OF hd [symmetric] tl this]
  show ?case
    by (simp add: h' vs e1 e2)
next
  case (10 h k j ms)
  obtain h1 v where hd: "revive h j = (h1, v)"
    by (cases "revive h j")
  obtain h2 ps' where tl: "revive_props h1 ms = (h2, ps')"
    by (cases "revive_props h1 ms")
  from "10.prems"(1) hd tl have h': "h' = h2" and ps: "ps = (k, v) # ps'"
    by simp_all
  obtain e1 where e1: "h1 = h @ e1"
    using revive_extends(1) [OF hd] by blast
  obtain e2 where e2: "h2 = h1 @ e2"
    using revive_extends(3) [OF tl] by blast
  have "n \<le> length h1"
    using "10.prems"(2) e1 by simp
  from "10.IH"(1) [OF hd "10.prems"(2)] "10.IH"(2) [OF hd [symmetric] tl this]
  show ?case
    by (simp add: h' ps e1 e2)
qed auto

text \<open>The export of plain data.\<close>

lemma stateExporter_plain:
  assumes w: "walk (objects env) [] x = Inr t" and p: "plain t"
  shows "\<exists>ext r. stateExporter env x = (env\<lparr>objects := objects env @ ext\<rparr>, r) \<and>
    walk (objects env @ ext) [] r = Inr t \<and>
    points_above (length (objects env)) r \<and>
    list_all (object_above (length (objects env))) ext"
proof (cases "x = VNull")
  case True
  then have "stateExporter env x = (env\<lparr>objects := objects env @ []\<rparr>, VNull)"
    by (simp add: stateExporter_def)
  moreover have "walk (objects env @ []) [] VNull = Inr t"
    using w True by simp
  ultimately show ?thesis
    by (intro exI [of _ "[]"] exI [of _ VNull]) simp
next
  case False
  from encode_plain(1) [OF p] obtain j where j: "encode t = Some j" and tj: "tree_of j = t"
    by auto
  obtain h' r where rv: "revive (objects env) j = (h', r)"
    by (cases "revive (objects env) j")
  obtain ext where ext: "h' = objects env @ ext"
    using revive_extends(1) [OF rv] by blast
  have se: "stateExporter env x = (env\<lparr>objects := objects env @ ext\<rparr>, r)"
    using False by (simp add: stateExporter_def JSON_stringify_def JSON_parse_def w j rv ext)
  have "walk (h' @ []) [] r = Inr (tree_of j)"
    by (rule revive_walk(1) [OF rv]) simp
  then have wr: "walk (objects env @ ext) [] r = Inr t"
    by (simp add: ext tj)
  from revive_fresh(1) [OF rv order_refl]
  have "points_above (length (objects env)) r"
    and "list_all (object_above (length (objects env))) ext"
    by (simp_all add: ext)
  with se wr show ?thesis by blast
qed


text \<open>The two ways the \<open>try\<close> block raises, and what the \<open>catch\<close> block makes of them.\<close>

lemma stateExporter_caught:
  "JSON_stringify (objects env) x = Inl e \<Longrightarrow>
     stateExporter env x = (console_error env e, VNull)"
  "JSON_stringify (objects env) x = Inr None \<Longrightarrow>
     stateExporter env x = (console_error env SyntaxError, VNull)"
  by (auto simp: stateExporter_def JSON_stringify_def JSON_parse_def split: sum.splits)


text \<open>
  C3. \<open>stateExporter(null)\<close> returns \<open>null\<close>. For every plain-data value \<open>x\<close>
  (one that unfolds to a plain tree \<open>t\<close>), \<open>stateExporter(x)\<close> returns a deep copy:
  a value \<open>r\<close> that unfolds to the same tree \<open>t\<close>, built from objects the call
  allocated (it refers to none that existed before, and neither do the new objects),
  hence not the same reference as \<open>x\<close> when \<open>x\<close> is an object or array; the old heap
  is kept and the console is untouched. For every value whose serialization fails,
  by \<open>JSON.stringify\<close> raising (a self-referencing structure) or by its result
  \<open>undefined\<close> failing to parse, \<open>stateExporter(x)\<close> logs the error and returns
  \<open>null\<close>; it returns in every case.
\<close>

theorem stateExporter_contract:
  "stateExporter env VNull = (env, VNull) \<and>
   (\<forall>t. walk (objects env) [] x = Inr t \<and> plain t \<longrightarrow>
      (\<exists>ext r.
         stateExporter env x = (env\<lparr>objects := objects env @ ext\<rparr>, r) \<and>
         walk (objects env @ ext) [] r = Inr t \<and>
         points_above (length (objects env)) r \<and>
         list_all (object_above (length (objects env))) ext \<and>
         (\<forall>a. x = VRef a \<longrightarrow> r \<noteq> x))) \<and>
   (\<forall>e. JSON_stringify (objects env) x = Inl e \<longrightarrow>
      stateExporter env x = (console_error env e, VNull)) \<and>
   (JSON_stringify (objects env) x = Inr None \<longrightarrow>
      stateExporter env x = (console_error env SyntaxError, VNull))"
proof (intro conjI allI impI)
  show "stateExporter env VNull = (env, VNull)"
    by (simp add: stateExporter_def)
next
  fix t
  assume "walk (objects env) [] x = Inr t \<and> plain t"
  then have w: "walk (objects env) [] x = Inr t" and p: "plain t"
    by simp_all
  from stateExporter_plain [OF w p] obtain ext r where
    se: "stateExporter env x = (env\<lparr>objects := objects env @ ext\<rparr>, r)" and
    wr: "walk (objects env @ ext) [] r = Inr t" and
    pa: "points_above (length (objects env)) r" and
    oa: "list_all (object_above (length (objects env))) ext"
    by blast
  have "r \<noteq> x" if "x = VRef a" for a
  proof
    assume "r = x"
    with pa that have "length (objects env) \<le> a" by simp
    with w that show False by simp
  qed
  with se wr pa oa
  show "\<exists>ext r.
      stateExporter env x = (env\<lparr>objects := objects env @ ext\<rparr>, r) \<and>
      walk (objects env @ ext) [] r = Inr t \<and>
      points_above (length (objects env)) r \<and>
      list_all (object_above (length (objects env))) ext \<and>
      (\<forall>a. x = VRef a \<longrightarrow> r \<noteq> x)"
    by blast
next
  fix e
  assume "JSON_stringify (objects env) x = Inl e"
  then show "stateExporter env x = (console_error env e, VNull)"
    by (rule stateExporter_caught)
next
  assume "JSON_stringify (objects env) x = Inr None"
  then show "stateExporter env x = (console_error env SyntaxError, VNull)"
    by (rule stateExporter_caught)
qed

theorem stateExporter_contract_witness:
  "walk (objects exportEnv) [] (VRef 0)
     = Inr (TObj [(''output'', TStr ''...''),
                  (''hops'', TArr [TNum (Fin 1), TNull, TBool True])]) \<and>
   plain (TObj [(''output'', TStr ''...''),
                (''hops'', TArr [TNum (Fin 1), TNull, TBool True])]) \<and>
   (\<exists>ext r.
      stateExporter exportEnv (VRef 0) = (exportEnv\<lparr>objects := objects exportEnv @ ext\<rparr>, r) \<and>
      walk (objects exportEnv @ ext) [] r = walk (objects exportEnv) [] (VRef 0) \<and>
      r \<noteq> VRef 0) \<and>
   stateExporter exportEnv (VRef 0)
     = (exportEnv\<lparr>objects := objects exportEnv @
          [OArr [VNum (Fin 1), VNull, VBool True],
           OObj [(''output'', VStr ''...''), (''hops'', VRef 3)]]\<rparr>, VRef 4) \<and>
   JSON_stringify (objects exportEnv) (VRef 2) = Inl TypeError \<and>
   stateExporter exportEnv (VRef 2) = (exportEnv\<lparr>console := [TypeError]\<rparr>, VNull) \<and>
   JSON_stringify (objects exportEnv) VFun = Inr None \<and>
   stateExporter exportEnv VFun = (exportEnv\<lparr>console := [SyntaxError]\<rparr>, VNull)"
proof -
  let ?t = "TObj [(''output'', TStr ''...''),
                  (''hops'', TArr [TNum (Fin 1), TNull, TBool True])]"
  have w: "walk (objects exportEnv) [] (VRef 0) = Inr ?t"
    by (simp add: exportEnv_def)
  have p: "plain ?t"
    by simp
  have cyc: "JSON_stringify (objects exportEnv) (VRef 2) = Inl TypeError"
    by (simp add: JSON_stringify_def exportEnv_def)
  have fn: "JSON_stringify (objects exportEnv) VFun = Inr None"
    by (simp add: JSON_stringify_def)
  have con: "console exportEnv = []"
    by (simp add: exportEnv_def)
  from stateExporter_contract [of exportEnv "VRef 0"] w p
  have copy: "\<exists>ext r.
      stateExporter exportEnv (VRef 0) = (exportEnv\<lparr>objects := objects exportEnv @ ext\<rparr>, r) \<and>
      walk (objects exportEnv @ ext) [] r = walk (objects exportEnv) [] (VRef 0) \<and>
      r \<noteq> VRef 0"
    by fastforce
  from stateExporter_contract [of exportEnv "VRef 2"] cyc
  have c2: "stateExporter exportEnv (VRef 2) = (exportEnv\<lparr>console := [TypeError]\<rparr>, VNull)"
    by (simp add: console_error_def con)
  from stateExporter_contract [of exportEnv VFun] fn
  have c3: "stateExporter exportEnv VFun = (exportEnv\<lparr>console := [SyntaxError]\<rparr>, VNull)"
    by (simp add: console_error_def con)
  have ev: "stateExporter exportEnv (VRef 0)
     = (exportEnv\<lparr>objects := objects exportEnv @
          [OArr [VNum (Fin 1), VNull, VBool True],
           OObj [(''output'', VStr ''...''), (''hops'', VRef 3)]]\<rparr>, VRef 4)"
    by (simp add: stateExporter_def JSON_stringify_def JSON_parse_def exportEnv_def)
  from w p copy ev cyc c2 fn c3 show ?thesis
    by (intro conjI)
qed


text \<open>
  C10. \<open>stateExporter(undefined)\<close> returns \<open>null\<close> without throwing: \<open>undefined\<close>
  is not \<open>null\<close>, so serialization is attempted; \<open>JSON.stringify\<close> yields
  \<open>undefined\<close>, which \<open>JSON.parse\<close> rejects with a \<open>SyntaxError\<close>; the error is
  caught and logged and the result is the initial \<open>null\<close>.
\<close>

theorem stateExporter_undefined:
  "VUndefined \<noteq> VNull \<and>
   JSON_stringify (objects env) VUndefined = Inr None \<and>
   JSON_parse (objects env) None = Inl SyntaxError \<and>
   stateExporter env VUndefined = (console_error env SyntaxError, VNull)"
  by (simp add: stateExporter_def JSON_stringify_def JSON_parse_def)


theorem stateExporter_undefined_witness:
  "stateExporter \<lparr>objects = [], console = []\<rparr> VUndefined
     = (\<lparr>objects = [], console = [SyntaxError]\<rparr>, VNull)"
  using stateExporter_undefined [of "\<lparr>objects = [], console = []\<rparr>"]
  by (simp add: console_error_def)


end
